theory Spec2Isabelle
  imports Complex_Main
begin

section \<open>JavaScript values\<close>

text \<open>
  The handlers of \<^verbatim>\<open>src/Backend/server.js\<close> read the parsed JSON body of a request
  and build object literals from it. A value is \<^verbatim>\<open>undefined\<close> (a property that is not
  there), \<^verbatim>\<open>null\<close>, a boolean, a number, a string, an array or an object (its own
  properties, each key once). A number is a finite double (\<open>JNum\<close>, kept as the rational
  it equals: the handlers only test such a number for being zero and copy it),
  \<^verbatim>\<open>NaN\<close>, \<^verbatim>\<open>Infinity\<close> or \<^verbatim>\<open>-Infinity\<close>. \<^verbatim>\<open>JSON.parse\<close> yields an infinity for a literal
  beyond the range of doubles (\<^verbatim>\<open>1e400\<close>), and \<^verbatim>\<open>parseInt\<close> returns \<^verbatim>\<open>NaN\<close> for a string
  without leading digits.
\<close>

datatype jsval =
    JUndefined
  | JNull
  | JBool bool
  | JNum rat
  | JNaN
  | JInfinity
  | JNegInfinity
  | JStr string
  | JArr "jsval list"
  | JObj "(string \<times> jsval) list"

text \<open>\<^verbatim>\<open>ToBoolean\<close>: what \<^verbatim>\<open>!v\<close>, \<^verbatim>\<open>v && ...\<close> and \<^verbatim>\<open>v || ...\<close> test.\<close>

fun truthy :: "jsval \<Rightarrow> bool" where
  "truthy JUndefined = False"
| "truthy JNull = False"
| "truthy (JBool b) = b"
| "truthy (JNum n) = (n \<noteq> 0)"
| "truthy JNaN = False"
| "truthy JInfinity = True"
| "truthy JNegInfinity = True"
| "truthy (JStr s) = (s \<noteq> [])"
| "truthy (JArr xs) = True"
| "truthy (JObj kvs) = True"

text \<open>\<^verbatim>\<open>a || b\<close>.\<close>

definition js_or :: "jsval \<Rightarrow> jsval \<Rightarrow> jsval" where
  "js_or a b = (if truthy a then a else b)"

text \<open>
  Reading a property of \<^verbatim>\<open>undefined\<close> or \<^verbatim>\<open>null\<close> (also by destructuring) throws a
  TypeError. Every handler runs inside \<^verbatim>\<open>try { ... } catch\<close>, so the handlers below
  test \<open>nullish\<close> first and answer as their \<^verbatim>\<open>catch\<close> block does.
\<close>

definition nullish :: "jsval \<Rightarrow> bool" where
  "nullish v = (v = JUndefined \<or> v = JNull)"

text \<open>
  \<^verbatim>\<open>v.k\<close> for a value that is not nullish, for the property names the handlers read
  (none of them is a built-in property of strings, arrays or \<^verbatim>\<open>Object.prototype\<close>):
  the own property of an object, \<^verbatim>\<open>undefined\<close> otherwise.
\<close>

fun js_prop :: "jsval \<Rightarrow> string \<Rightarrow> jsval" where
  "js_prop (JObj kvs) k = (case map_of kvs k of Some v \<Rightarrow> v | None \<Rightarrow> JUndefined)"
| "js_prop v k = JUndefined"

text \<open>\<^verbatim>\<open>Array.isArray(v)\<close> and the elements of an array.\<close>

fun isArray :: "jsval \<Rightarrow> bool" where
  "isArray (JArr xs) = True"
| "isArray v = False"

fun elements :: "jsval \<Rightarrow> jsval list" where
  "elements (JArr xs) = xs"
| "elements v = []"

text \<open>
  The array pattern \<^verbatim>\<open>[kanjiId, progressData]\<close> iterates its argument: an array
  gives its elements, a string its characters, anything else is not iterable (a
  TypeError, \<open>None\<close>). A position past the end reads \<^verbatim>\<open>undefined\<close>.
\<close>

fun iterate :: "jsval \<Rightarrow> jsval list option" where
  "iterate (JArr xs) = Some xs"
| "iterate (JStr s) = Some (map (\<lambda>c. JStr [c]) s)"
| "iterate v = None"

definition nth_or_undefined :: "jsval list \<Rightarrow> nat \<Rightarrow> jsval" where
  "nth_or_undefined xs i = (if i < length xs then xs ! i else JUndefined)"

definition destructure_pair :: "jsval \<Rightarrow> (jsval \<times> jsval) option" where
  "destructure_pair v =
     (case iterate v of
        None \<Rightarrow> None
      | Some ys \<Rightarrow> Some (nth_or_undefined ys 0, nth_or_undefined ys 1))"

section \<open>Values on the wire\<close>

text \<open>
  The client sends a payload as \<^verbatim>\<open>JSON.stringify\<close> writes it, and the store holds what
  that text denotes: \<^verbatim>\<open>NaN\<close> and the infinities are written as \<^verbatim>\<open>null\<close>, an element of
  an array that is \<^verbatim>\<open>undefined\<close> is written as \<^verbatim>\<open>null\<close>, and a property of an object
  whose value is \<^verbatim>\<open>undefined\<close> is left out. (A property of the payload itself that is
  \<^verbatim>\<open>undefined\<close> is left out by \<open>sent_columns\<close> below; a conflict column that is left
  out is \<^verbatim>\<open>null\<close> in the key.)
\<close>

fun wire :: "jsval \<Rightarrow> jsval" where
  "wire JUndefined = JNull"
| "wire JNaN = JNull"
| "wire JInfinity = JNull"
| "wire JNegInfinity = JNull"
| "wire (JArr xs) = JArr (map wire xs)"
| "wire (JObj kvs) =
     JObj (map (\<lambda>kv. (fst kv, wire (snd kv))) (filter (\<lambda>kv. snd kv \<noteq> JUndefined) kvs))"
| "wire v = v"

section \<open>Responses\<close>

text \<open>
  \<^verbatim>\<open>res.json(obj)\<close> answers with status 200, \<^verbatim>\<open>res.status(s).json(obj)\<close> with status
  \<open>s\<close>; \<open>json\<close> is the object handed to \<^verbatim>\<open>res.json\<close>.
\<close>

record response =
  status :: nat
  json :: jsval

definition reply :: "nat \<Rightarrow> (string \<times> jsval) list \<Rightarrow> response" where
  "reply s kvs = \<lparr>status = s, json = JObj kvs\<rparr>"

definition failure :: "nat \<Rightarrow> string \<Rightarrow> response" where
  "failure s msg = reply s [(''error'', JStr msg)]"

section \<open>The tables\<close>

text \<open>
  The handlers keep their state in the tables behind \<^verbatim>\<open>supabase.from(name)\<close>. A row
  maps column names to values; a column that is not set reads as \<^verbatim>\<open>null\<close>. A table
  maps the values of its conflict columns (\<^verbatim>\<open>onConflict\<close>) to the row that holds them,
  so there is one row per key. The payload of \<^verbatim>\<open>.upsert(payload, {onConflict})\<close> is an
  object literal of the handler: a property whose value is \<^verbatim>\<open>undefined\<close> is not sent
  (\<^verbatim>\<open>JSON.stringify\<close> drops it), the others are sent as \<open>wire\<close> gives them, and the
  columns that are sent overwrite those of the row with the payload's key; the other
  columns stay as they are (not set, in a row that the upsert creates: the tables'
  column defaults are not part of the sources).

  Whether the store accepts a call is an input of each handler (\<open>read_ok\<close>,
  \<open>write_ok\<close>): the handlers branch on the \<^verbatim>\<open>error\<close> that the call returns, and a
  refused write changes nothing.
\<close>

type_synonym row = "string \<rightharpoonup> jsval"

type_synonym table = "jsval list \<rightharpoonup> row"

definition col :: "row \<Rightarrow> string \<Rightarrow> jsval" where
  "col r c = (case r c of None \<Rightarrow> JNull | Some v \<Rightarrow> v)"

definition sent_columns :: "(string \<times> jsval) list \<Rightarrow> row" where
  "sent_columns payload =
     map_of (map (\<lambda>kv. (fst kv, wire (snd kv))) (filter (\<lambda>kv. snd kv \<noteq> JUndefined) payload))"

definition conflict_key :: "string list \<Rightarrow> (string \<times> jsval) list \<Rightarrow> jsval list" where
  "conflict_key onConflict payload = map (col (sent_columns payload)) onConflict"

definition stored_row :: "table \<Rightarrow> jsval list \<Rightarrow> row" where
  "stored_row tbl k = (case tbl k of None \<Rightarrow> Map.empty | Some r \<Rightarrow> r)"

definition upsert :: "string list \<Rightarrow> table \<Rightarrow> (string \<times> jsval) list \<Rightarrow> table" where
  "upsert onConflict tbl payload =
     (let k = conflict_key onConflict payload
      in tbl(k \<mapsto> stored_row tbl k ++ sent_columns payload))"

text \<open>
  Modelled from the spec: what the store does with the array of rows of one
  \<^verbatim>\<open>.upsert(progressRecords, ...)\<close> call is not in the repository's sources. Spec
  section 4.2 has the rows applied as independent upserts in submission order (and
  all of them or none), which is what \<open>upsert_all\<close> does.
\<close>

definition upsert_all :: "string list \<Rightarrow> table \<Rightarrow> (string \<times> jsval) list list \<Rightarrow> table" where
  "upsert_all onConflict tbl payloads = foldl (upsert onConflict) tbl payloads"

text \<open>\<^verbatim>\<open>.eq('user_id', req.user.id).single()\<close>: the user's row, if there is one.\<close>

definition single_by_user :: "table \<Rightarrow> string \<Rightarrow> row option" where
  "single_by_user tbl user_id = tbl [JStr user_id]"

section \<open>Settings: GET /api/settings and PUT /api/settings\<close>

text \<open>
  \<^verbatim>\<open>server.js\<close> lines 650-696. \<open>username\<close> is \<^verbatim>\<open>req.user.username\<close>. When the select
  fails with an error other than PGRST116 (no rows) the answer is 500; with no row
  \<^verbatim>\<open>data\<close> is \<^verbatim>\<open>null\<close> and the defaults are returned.
\<close>

definition defaultSettings :: "jsval \<Rightarrow> jsval" where
  "defaultSettings username = JObj
     [(''profileName'', js_or username (JStr ''User'')),
      (''maxLevel'', JNum 10),
      (''jlptLevel'', JStr ''all''),
      (''maxInterval'', JNum 180),
      (''showProgress'', JBool True),
      (''showDrawing'', JBool True),
      (''showStudyProgress'', JBool True),
      (''defaultQuestionMode'', JStr ''meaning-first''),
      (''darkMode'', JBool False),
      (''language'', JStr ''en'')]"

text \<open>\<^verbatim>\<open>data.c !== null ? data.c : d\<close>.\<close>

definition unless_null :: "jsval \<Rightarrow> jsval \<Rightarrow> jsval" where
  "unless_null v d = (if v \<noteq> JNull then v else d)"

definition settings_of_row :: "row \<Rightarrow> jsval \<Rightarrow> jsval" where
  "settings_of_row data dflt = JObj
     [(''profileName'', js_or (col data ''profile_name'') (js_prop dflt ''profileName'')),
      (''maxLevel'', js_or (col data ''max_level'') (js_prop dflt ''maxLevel'')),
      (''jlptLevel'', js_or (col data ''jlpt_level'') (js_prop dflt ''jlptLevel'')),
      (''maxInterval'', js_or (col data ''max_interval'') (js_prop dflt ''maxInterval'')),
      (''showProgress'', unless_null (col data ''show_progress'') (js_prop dflt ''showProgress'')),
      (''showDrawing'', unless_null (col data ''show_drawing'') (js_prop dflt ''showDrawing'')),
      (''showStudyProgress'',
         unless_null (col data ''show_study_progress'') (js_prop dflt ''showStudyProgress'')),
      (''defaultQuestionMode'',
         js_or (col data ''default_question_mode'') (js_prop dflt ''defaultQuestionMode'')),
      (''darkMode'', unless_null (col data ''dark_mode'') (js_prop dflt ''darkMode'')),
      (''language'', js_or (col data ''language'') (js_prop dflt ''language''))]"

definition settings_get :: "bool \<Rightarrow> string \<Rightarrow> jsval \<Rightarrow> table \<Rightarrow> response" where
  "settings_get read_ok user_id username tbl =
     (if \<not> read_ok then failure 500 ''Failed to get settings''
      else
        let data = single_by_user tbl user_id;
            dflt = defaultSettings username;
            settings = (case data of Some d \<Rightarrow> settings_of_row d dflt | None \<Rightarrow> dflt)
        in reply 200 [(''success'', JBool True), (''settings'', settings)])"

text \<open>
  \<^verbatim>\<open>server.js\<close> lines 699-756. \<open>now_iso\<close> is the string that
  \<^verbatim>\<open>new Date().toISOString()\<close> returns.
\<close>

definition settingsData :: "string \<Rightarrow> string \<Rightarrow> jsval \<Rightarrow> (string \<times> jsval) list" where
  "settingsData now_iso user_id body =
     [(''user_id'', JStr user_id),
      (''profile_name'', js_prop body ''profileName''),
      (''max_level'', js_prop body ''maxLevel''),
      (''jlpt_level'', js_prop body ''jlptLevel''),
      (''max_interval'', js_prop body ''maxInterval''),
      (''show_progress'', js_prop body ''showProgress''),
      (''show_drawing'', js_prop body ''showDrawing''),
      (''show_study_progress'', js_prop body ''showStudyProgress''),
      (''default_question_mode'', js_prop body ''defaultQuestionMode''),
      (''dark_mode'', js_prop body ''darkMode''),
      (''language'', js_or (js_prop body ''language'') (JStr ''en'')),
      (''updated_at'', JStr now_iso)]"

definition settings_save ::
  "string \<Rightarrow> bool \<Rightarrow> string \<Rightarrow> jsval \<Rightarrow> table \<Rightarrow> response \<times> table" where
  "settings_save now_iso write_ok user_id body tbl =
     (if nullish body then (failure 500 ''Failed to save settings'', tbl)
      else
        let language = js_prop body ''language'' in
        if truthy language \<and> language \<notin> set [JStr ''en'', JStr ''ja'']
        then (failure 400 ''Invalid language. Must be \"en\" or \"ja\"'', tbl)
        else if \<not> write_ok then (failure 500 ''Failed to save settings'', tbl)
        else (reply 200 [(''success'', JBool True)],
              upsert [''user_id''] tbl (settingsData now_iso user_id body)))"

section \<open>Progress: POST /api/progress/update and POST /api/progress/bulk-update\<close>

text \<open>
  \<^verbatim>\<open>server.js\<close> lines 818-854: the single upsert. The body's fields are destructured
  (a TypeError when the body is \<^verbatim>\<open>undefined\<close> or \<^verbatim>\<open>null\<close>, answered by the \<^verbatim>\<open>catch\<close>
  block), defaulted with \<^verbatim>\<open>||\<close> and handed to the store. Nothing compares one field
  with another.
\<close>

definition progressData :: "string \<Rightarrow> string \<Rightarrow> jsval \<Rightarrow> (string \<times> jsval) list" where
  "progressData now_iso user_id body =
     [(''user_id'', JStr user_id),
      (''kanji_id'', js_prop body ''kanji_id''),
      (''learned'', js_or (js_prop body ''learned'') (JBool False)),
      (''in_review'', js_or (js_prop body ''in_review'') (JBool False)),
      (''srs_interval'', js_or (js_prop body ''srs_interval'') (JNum 1)),
      (''ease_factor'', js_or (js_prop body ''ease_factor'') (JNum (5 / 2))),
      (''consecutive_correct'', js_or (js_prop body ''consecutive_correct'') (JNum 0)),
      (''total_reviews'', js_or (js_prop body ''total_reviews'') (JNum 0)),
      (''correct_reviews'', js_or (js_prop body ''correct_reviews'') (JNum 0)),
      (''last_review'', JStr now_iso),
      (''next_review'', js_or (js_prop body ''next_review'') JNull),
      (''mnemonic'', js_or (js_prop body ''mnemonic'') JNull)]"

definition progress_update ::
  "string \<Rightarrow> bool \<Rightarrow> string \<Rightarrow> jsval \<Rightarrow> table \<Rightarrow> response \<times> table" where
  "progress_update now_iso write_ok user_id body tbl =
     (if nullish body then (failure 500 ''Failed to update progress'', tbl)
      else if \<not> write_ok then (failure 500 ''Failed to update progress'', tbl)
      else (reply 200 [(''success'', JBool True)],
            upsert [''user_id'', ''kanji_id''] tbl (progressData now_iso user_id body)))"

text \<open>
  \<^verbatim>\<open>server.js\<close> lines 598-644: the bulk upsert. \<open>parseInt\<close> is JavaScript's global
  function, taken as a parameter: every statement below holds whatever it returns.
  The callback of \<^verbatim>\<open>.map\<close> destructures an entry into \<^verbatim>\<open>[kanjiId, progressData]\<close> and
  reads the fields of \<^verbatim>\<open>progressData\<close>; an entry that is not iterable, or whose second
  element is \<^verbatim>\<open>undefined\<close> or \<^verbatim>\<open>null\<close>, throws a TypeError (\<open>None\<close>).
\<close>

definition progressRecord ::
  "(jsval \<Rightarrow> jsval) \<Rightarrow> string \<Rightarrow> string \<Rightarrow> jsval \<Rightarrow> jsval \<Rightarrow> (string \<times> jsval) list" where
  "progressRecord parseInt now_iso user_id kanjiId pd =
     [(''user_id'', JStr user_id),
      (''kanji_id'', parseInt kanjiId),
      (''learned'', js_or (js_prop pd ''learned'') (JBool False)),
      (''in_review'', js_or (js_prop pd ''inReview'') (JBool False)),
      (''srs_interval'', js_or (js_prop pd ''interval'') (JNum 1)),
      (''ease_factor'', js_or (js_prop pd ''ease'') (JNum (5 / 2))),
      (''consecutive_correct'', js_or (js_prop pd ''consecutiveCorrect'') (JNum 0)),
      (''total_reviews'', js_or (js_prop pd ''totalReviews'') (JNum 0)),
      (''correct_reviews'', js_or (js_prop pd ''correctReviews'') (JNum 0)),
      (''last_review'', js_or (js_prop pd ''lastReview'') JNull),
      (''next_review'', js_or (js_prop pd ''nextReview'') JNull),
      (''mnemonic'', js_or (js_prop pd ''mnemonic'') JNull),
      (''updated_at'', JStr now_iso)]"

definition map_entry ::
  "(jsval \<Rightarrow> jsval) \<Rightarrow> string \<Rightarrow> string \<Rightarrow> jsval \<Rightarrow> (string \<times> jsval) list option" where
  "map_entry parseInt now_iso user_id entry =
     (case destructure_pair entry of
        None \<Rightarrow> None
      | Some (kanjiId, pd) \<Rightarrow>
          if nullish pd then None
          else Some (progressRecord parseInt now_iso user_id kanjiId pd))"

definition progressRecords ::
  "(jsval \<Rightarrow> jsval) \<Rightarrow> string \<Rightarrow> string \<Rightarrow> jsval list \<Rightarrow> (string \<times> jsval) list list option" where
  "progressRecords parseInt now_iso user_id entries =
     those (map (map_entry parseInt now_iso user_id) entries)"

definition bulk_update ::
  "(jsval \<Rightarrow> jsval) \<Rightarrow> string \<Rightarrow> bool \<Rightarrow> string \<Rightarrow> jsval \<Rightarrow> table \<Rightarrow> response \<times> table" where
  "bulk_update parseInt now_iso write_ok user_id body tbl =
     (if nullish body then (failure 500 ''Failed to update progress'', tbl)
      else
        let kanjiProgressData = js_prop body ''kanjiProgressData'' in
        if \<not> truthy kanjiProgressData \<or> \<not> isArray kanjiProgressData
        then (failure 400 ''Invalid kanji progress data'', tbl)
        else
          case progressRecords parseInt now_iso user_id (elements kanjiProgressData) of
            None \<Rightarrow> (failure 500 ''Failed to update progress'', tbl)
          | Some records \<Rightarrow>
              if \<not> write_ok then (failure 500 ''Failed to update progress'', tbl)
              else (reply 200 [(''success'', JBool True),
                               (''updated'', JNum (of_nat (length (elements kanjiProgressData))))],
                    upsert_all [''user_id'', ''kanji_id''] tbl records))"

text \<open>The identifier an entry is stored under: \<^verbatim>\<open>parseInt(kanjiId)\<close>, as it is sent.\<close>

definition entry_id :: "(jsval \<Rightarrow> jsval) \<Rightarrow> jsval \<Rightarrow> jsval option" where
  "entry_id parseInt entry =
     (case destructure_pair entry of
        None \<Rightarrow> None
      | Some (kanjiId, pd) \<Rightarrow> Some (wire (parseInt kanjiId)))"

text \<open>The value a table holds for a key and a column; \<open>None\<close> when it has no such row.\<close>

definition cell :: "table \<Rightarrow> jsval list \<Rightarrow> string \<Rightarrow> jsval option" where
  "cell tbl k c = (case tbl k of None \<Rightarrow> None | Some r \<Rightarrow> Some (col r c))"

text \<open>
  The data model's invariant on a row, \<^verbatim>\<open>correctReviews \<le> totalReviews\<close>, for rows
  whose two counters are numbers.
\<close>

fun num_le :: "jsval \<Rightarrow> jsval \<Rightarrow> bool" where
  "num_le (JNum a) (JNum b) = (a \<le> b)"
| "num_le v w = False"

definition reviews_invariant :: "row \<Rightarrow> bool" where
  "reviews_invariant r = num_le (col r ''correct_reviews'') (col r ''total_reviews'')"

section \<open>Streak: POST /api/streak/update\<close>

text \<open>
  \<^verbatim>\<open>server.js\<close> lines 543-595. A time value is the number of milliseconds since the
  epoch, as in a \<^verbatim>\<open>Date\<close>. A calendar date string \<^verbatim>\<open>YYYY-MM-DD\<close> is kept as the number of the
  day it names (days since 1970-01-01): \<^verbatim>\<open>toISOString().split('T')[0]\<close> is the UTC day
  of the time value, and \<^verbatim>\<open>===\<close> on two such strings holds exactly when they name the
  same day.

  The handler reads the clock three times: for \<^verbatim>\<open>today\<close> (line 545), then, after the
  awaited select, for \<^verbatim>\<open>yesterday\<close> (line 558), and for \<^verbatim>\<open>updated_at\<close> (line 576).
\<close>

type_synonym time_value = int

type_synonym date = int

definition msPerDay :: int where
  "msPerDay = 86400000"

definition iso_date :: "time_value \<Rightarrow> date" where
  "iso_date t = t div msPerDay"

record clock =
  at_today :: time_value
  at_yesterday :: time_value
  at_update :: time_value

text \<open>
  \<^verbatim>\<open>yesterday.setDate(yesterday.getDate() - 1)\<close> works in the host's local time:
  with \<^verbatim>\<open>t = LocalTime(now)\<close> the new time value is
  \<^verbatim>\<open>UTC(MakeDate(MakeDay(Year(t), Month(t), Date(t) - 1), TimeWithinDay(t)))\<close>, that is
  the local time one day (\<open>msPerDay\<close>) earlier, converted back. The host's zone gives
  the offset of local time at a UTC time value and at a local time value.
\<close>

record zone =
  offset_at_utc :: "time_value \<Rightarrow> int"
  offset_at_local :: "time_value \<Rightarrow> int"

definition setDate_yesterday :: "zone \<Rightarrow> time_value \<Rightarrow> time_value" where
  "setDate_yesterday z t =
     (let local = t + offset_at_utc z t;
          moved = local - msPerDay
      in moved - offset_at_local z moved)"

text \<open>
  The zone has, one local day before \<open>now\<close>, the offset it has at \<open>now\<close>: always so
  in UTC and in any zone without daylight-saving changes. \<open>new_york\<close> is the zone
  America/New_York in 2024: four hours behind UTC from 2024-03-10T07:00Z to
  2024-11-03T06:00Z (local times from 03:00 on March 10 to 02:00 on November 3), five
  hours otherwise.
\<close>

definition steady_zone :: "zone \<Rightarrow> time_value \<Rightarrow> bool" where
  "steady_zone z now =
     (offset_at_local z (now + offset_at_utc z now - msPerDay) = offset_at_utc z now)"

definition utc_zone :: zone where
  "utc_zone = \<lparr>offset_at_utc = (\<lambda>t. 0), offset_at_local = (\<lambda>t. 0)\<rparr>"

definition new_york :: zone where
  "new_york =
     \<lparr>offset_at_utc =
        (\<lambda>t. if 1710054000000 \<le> t \<and> t < 1730613600000 then - 14400000 else - 18000000),
      offset_at_local =
        (\<lambda>t. if 1710039600000 \<le> t \<and> t < 1730599200000 then - 14400000 else - 18000000)\<rparr>"

text \<open>
  \<^verbatim>\<open>currentStreak.daily_streak + 1\<close> adds doubles. The counter read from the store is an
  integer that is a double; the sum is the double nearest to the exact sum, the one
  with the even significand when two are equally near. \<open>excess m\<close> is the number of
  bits of \<open>m\<close> beyond the 53 of a significand.
\<close>

fun excess :: "nat \<Rightarrow> nat" where
  "excess m = (if m < 9007199254740992 then 0 else Suc (excess (m div 2)))"

definition round_double :: "int \<Rightarrow> int" where
  "round_double n =
     (let k = excess (nat \<bar>n\<bar>);
          q = n div 2 ^ k;
          r = n mod 2 ^ k
      in if k = 0 then n
         else if 2 * r < 2 ^ k then q * 2 ^ k
         else if 2 ^ k < 2 * r then (q + 1) * 2 ^ k
         else if even q then q * 2 ^ k
         else (q + 1) * 2 ^ k)"

definition plus_one :: "int \<Rightarrow> int" where
  "plus_one n = round_double (n + 1)"

text \<open>
  Modelled from the spec: the schema of \<^verbatim>\<open>user_streaks\<close> is not in the sources. The
  columns are those the handler selects and writes, keyed by \<^verbatim>\<open>user_id\<close>; by section 3
  the streak counter is an integer and the date of the last review a calendar date
  without a time (\<open>None\<close> for \<^verbatim>\<open>null\<close>). \<open>updated_at\<close> is the time of the last write.
\<close>

record streak_row =
  daily_streak :: int
  last_review_date :: "date option"
  updated_at :: time_value

type_synonym streak_table = "string \<rightharpoonup> streak_row"

definition streak_reply :: "int \<Rightarrow> response" where
  "streak_reply n = reply 200 [(''success'', JBool True), (''streak'', JNum (of_int n))]"

text \<open>
  The select's \<^verbatim>\<open>error\<close> is not read: when the select fails \<^verbatim>\<open>currentStreak\<close> is
  \<^verbatim>\<open>null\<close>, as it is when the user has no row.
\<close>

definition persist_streak ::
  "date \<Rightarrow> time_value \<Rightarrow> bool \<Rightarrow> string \<Rightarrow> int \<Rightarrow> streak_table
     \<Rightarrow> response \<times> streak_table" where
  "persist_streak today updated write_ok user_id newStreak tbl =
     (let streakData = \<lparr>daily_streak = newStreak, last_review_date = Some today,
                         updated_at = updated\<rparr>
      in if \<not> write_ok then (failure 500 ''Failed to update streak'', tbl)
         else (streak_reply newStreak, tbl(user_id \<mapsto> streakData)))"

definition streak_update ::
  "zone \<Rightarrow> clock \<Rightarrow> bool \<Rightarrow> bool \<Rightarrow> string \<Rightarrow> streak_table \<Rightarrow> response \<times> streak_table" where
  "streak_update z clk read_ok write_ok user_id tbl =
     (let today = iso_date (at_today clk);
          currentStreak = (if read_ok then tbl user_id else None)
      in case currentStreak of
           None \<Rightarrow> persist_streak today (at_update clk) write_ok user_id 1 tbl
         | Some cs \<Rightarrow>
             let lastDate = last_review_date cs;
                 yesterdayStr = iso_date (setDate_yesterday z (at_yesterday clk))
             in if lastDate = Some today then (streak_reply (daily_streak cs), tbl)
                else if lastDate = Some yesterdayStr
                then persist_streak today (at_update clk) write_ok user_id
                       (plus_one (daily_streak cs)) tbl
                else persist_streak today (at_update clk) write_ok user_id 1 tbl)"

section \<open>Settings fields\<close>

text \<open>A field of the settings object in the answer of GET /api/settings.\<close>

definition resolved :: "response \<Rightarrow> string \<Rightarrow> jsval" where
  "resolved res f = js_prop (js_prop (json res) ''settings'') f"

text \<open>
  The settings that \<open>settings_of_row\<close> resolves with \<^verbatim>\<open>||\<close> (\<^verbatim>\<open>server.js\<close> lines
  678-681, 685 and 687): the column, the field of the answer, and the default.
\<close>

definition or_resolved :: "jsval \<Rightarrow> (string \<times> string \<times> jsval) list" where
  "or_resolved username =
     [(''profile_name'', ''profileName'', js_or username (JStr ''User'')),
      (''max_level'', ''maxLevel'', JNum 10),
      (''jlpt_level'', ''jlptLevel'', JStr ''all''),
      (''max_interval'', ''maxInterval'', JNum 180),
      (''default_question_mode'', ''defaultQuestionMode'', JStr ''meaning-first''),
      (''language'', ''language'', JStr ''en'')]"

text \<open>
  The fields of the body of PUT /api/settings that \<open>settingsData\<close> passes on as they
  are (\<^verbatim>\<open>server.js\<close> lines 722-730), each with the column it is saved in.
\<close>

definition saved_fields :: "(string \<times> string) list" where
  "saved_fields =
     [(''profileName'', ''profile_name''),
      (''maxLevel'', ''max_level''),
      (''jlptLevel'', ''jlpt_level''),
      (''maxInterval'', ''max_interval''),
      (''showProgress'', ''show_progress''),
      (''showDrawing'', ''show_drawing''),
      (''showStudyProgress'', ''show_study_progress''),
      (''defaultQuestionMode'', ''default_question_mode''),
      (''darkMode'', ''dark_mode'')]"

section \<open>Example inputs\<close>

text \<open>Noon of 2024-01-06 (day 19728) and of 2024-01-10 (day 19732), UTC.\<close>

definition jan6_noon :: time_value where
  "jan6_noon = 1704542400000"

definition jan10_noon :: time_value where
  "jan10_noon = 1704888000000"

text \<open>A request whose three clock readings are the same instant.\<close>

definition instant :: "time_value \<Rightarrow> clock" where
  "instant t = \<lparr>at_today = t, at_yesterday = t, at_update = t\<rparr>"

text \<open>
  A request that arrives at 2024-01-06T23:59:59.990Z and whose select returns at
  2024-01-07T00:00:00.010Z.
\<close>

definition midnight_clock :: clock where
  "midnight_clock =
     \<lparr>at_today = 1704585599990, at_yesterday = 1704585600010, at_update = 1704585600010\<rparr>"

text \<open>
  2024-03-10T23:30Z (day 19792) and 2024-11-04T00:30Z (day 20031): the evenings, in New
  York, of the days on which daylight-saving time begins and ends.
\<close>

definition mar10_evening :: time_value where
  "mar10_evening = 1710113400000"

definition nov4_night :: time_value where
  "nov4_night = 1730680200000"

definition streak3_mar9 :: streak_table where
  "streak3_mar9 = [''u1'' \<mapsto> \<lparr>daily_streak = 3, last_review_date = Some 19791, updated_at = 0\<rparr>]"

definition streak3_nov2 :: streak_table where
  "streak3_nov2 = [''u1'' \<mapsto> \<lparr>daily_streak = 3, last_review_date = Some 20029, updated_at = 0\<rparr>]"

definition jan6_iso :: string where
  "jan6_iso = ''2024-01-06T12:00:00.000Z''"

definition streak3_jan5 :: streak_table where
  "streak3_jan5 = [''u1'' \<mapsto> \<lparr>daily_streak = 3, last_review_date = Some 19727, updated_at = 0\<rparr>]"

definition streak5_jan1 :: streak_table where
  "streak5_jan1 = [''u1'' \<mapsto> \<lparr>daily_streak = 5, last_review_date = Some 19723, updated_at = 0\<rparr>]"


text \<open>\<^verbatim>\<open>parseInt\<close> on the integers of the examples: \<^verbatim>\<open>parseInt(5)\<close> is \<^verbatim>\<open>5\<close>.\<close>

definition parseInt_integer :: "jsval \<Rightarrow> jsval" where
  "parseInt_integer v = v"

definition overcount_body :: jsval where
  "overcount_body =
     JObj [(''kanji_id'', JNum 7), (''total_reviews'', JNum 3), (''correct_reviews'', JNum 5)]"

definition counted_body :: jsval where
  "counted_body =
     JObj [(''kanji_id'', JNum 7), (''total_reviews'', JNum 3), (''correct_reviews'', JNum 2)]"

definition last_entry :: jsval where
  "last_entry = JObj [(''learned'', JBool False), (''totalReviews'', JNum 5),
                      (''correctReviews'', JNum 4)]"

definition duplicate_batch :: "jsval list" where
  "duplicate_batch =
     [JArr [JNum 5, JObj [(''learned'', JBool True), (''totalReviews'', JNum 4),
                          (''correctReviews'', JNum 3)]],
      JArr [JNum 5, last_entry],
      JArr [JNum 8, JObj [(''learned'', JBool True)]]]"

definition duplicate_batch_body :: jsval where
  "duplicate_batch_body = JObj [(''kanjiProgressData'', JArr duplicate_batch)]"

definition object_batch_body :: jsval where
  "object_batch_body =
     JObj [(''kanjiProgressData'', JObj [(''5'', JObj [(''learned'', JBool True)])])]"

definition name_only_body :: jsval where
  "name_only_body = JObj [(''profileName'', JStr ''Aki'')]"

text \<open>The body \<^verbatim>\<open>{"maxLevel": 1e400}\<close>, as parsed.\<close>

definition overflow_level_body :: jsval where
  "overflow_level_body = JObj [(''maxLevel'', JInfinity)]"

text \<open>The body \<^verbatim>\<open>{"kanji_id": 7, "total_reviews": 1e400, "correct_reviews": 2}\<close>, as parsed.\<close>

definition overflow_total_body :: jsval where
  "overflow_total_body =
     JObj [(''kanji_id'', JNum 7), (''total_reviews'', JInfinity), (''correct_reviews'', JNum 2)]"

definition japanese_settings :: table where
  "japanese_settings =
     [[JStr ''u1''] \<mapsto> [''language'' \<mapsto> JStr ''ja'', ''max_level'' \<mapsto> JNum 20]]"

definition empty_language_body :: jsval where
  "empty_language_body = JObj [(''language'', JStr [])]"

definition french_body :: jsval where
  "french_body = JObj [(''language'', JStr ''fr'')]"

definition zero_level_row :: row where
  "zero_level_row = [''max_level'' \<mapsto> JNum 0, ''profile_name'' \<mapsto> JStr []]"

section \<open>Streak continuity\<close>

lemma yesterday_steady:
  "steady_zone z now \<Longrightarrow> iso_date (setDate_yesterday z now) = iso_date now - 1"
  by (simp add: steady_zone_def setDate_yesterday_def iso_date_def msPerDay_def Let_def)

lemma steady_utc: "steady_zone utc_zone now"
  by (simp add: steady_zone_def utc_zone_def)

lemma excess_small: "m < 9007199254740992 \<Longrightarrow> excess m = 0"
  by simp

lemma plus_one_exact: "\<bar>n + 1\<bar> < 9007199254740992 \<Longrightarrow> plus_one n = n + 1"
  by (simp add: plus_one_def round_double_def Let_def excess_small del: excess.simps)




lemma iso_date_examples:
  "iso_date jan6_noon = 19728" "iso_date (jan6_noon + 3600000) = 19728"
  "iso_date jan10_noon = 19732" "iso_date mar10_evening = 19792" "iso_date nov4_night = 20031"
  "iso_date 1704585599990 = 19728" "iso_date 1704585600010 = 19729"
  by (simp_all add: iso_date_def msPerDay_def jan6_noon_def jan10_noon_def mar10_evening_def
      nov4_night_def)



text \<open>
  What the handler does on a consecutive day and after a gap when \<^verbatim>\<open>yesterdayStr\<close> is
  the day before \<^verbatim>\<open>today\<close>: the host's zone is steady over the last day and the clock
  readings for \<^verbatim>\<open>today\<close> and \<^verbatim>\<open>yesterday\<close> fall on one UTC day.
\<close>

lemma streak_consecutive_day_steady:
  assumes "read_ok" and "write_ok"
    and "steady_zone z (at_yesterday clk)"
    and "iso_date (at_yesterday clk) = iso_date (at_today clk)"
    and "tbl user_id = Some cs"
    and "last_review_date cs = Some (iso_date (at_today clk) - 1)"
    and "\<bar>daily_streak cs + 1\<bar> < 9007199254740992"
  shows "streak_update z clk read_ok write_ok user_id tbl =
           (streak_reply (daily_streak cs + 1),
            tbl(user_id \<mapsto> \<lparr>daily_streak = daily_streak cs + 1,
                               last_review_date = Some (iso_date (at_today clk)),
                               updated_at = at_update clk\<rparr>))"
  using assms
  by (simp add: streak_update_def persist_streak_def yesterday_steady Let_def plus_one_exact)

lemma streak_reset_steady:
  assumes "read_ok" and "write_ok"
    and "tbl user_id = None
         \<or> (\<exists>cs d. tbl user_id = Some cs \<and> last_review_date cs = Some d
                  \<and> steady_zone z (at_yesterday clk)
                  \<and> iso_date (at_yesterday clk) = iso_date (at_today clk)
                  \<and> (d \<le> iso_date (at_today clk) - 2 \<or> iso_date (at_today clk) < d))"
  shows "streak_update z clk read_ok write_ok user_id tbl =
           (streak_reply 1,
            tbl(user_id \<mapsto> \<lparr>daily_streak = 1, last_review_date = Some (iso_date (at_today clk)),
                               updated_at = at_update clk\<rparr>))"
  using assms
  by (auto simp: streak_update_def persist_streak_def yesterday_steady Let_def)

lemma streak_examples:
  "streak_update utc_zone (instant jan6_noon) True True ''u1'' streak3_jan5 =
     (streak_reply 4,
      streak3_jan5(''u1'' \<mapsto> \<lparr>daily_streak = 4, last_review_date = Some 19728,
                                 updated_at = jan6_noon\<rparr>))"
  "streak_update utc_zone (instant jan10_noon) True True ''u1'' streak5_jan1 =
     (streak_reply 1,
      streak5_jan1(''u1'' \<mapsto> \<lparr>daily_streak = 1, last_review_date = Some 19732,
                                 updated_at = jan10_noon\<rparr>))"
proof -
  have row: "streak3_jan5 ''u1''
               = Some \<lparr>daily_streak = 3, last_review_date = Some 19727, updated_at = 0\<rparr>"
    by (simp add: streak3_jan5_def)
  from streak_consecutive_day_steady [where tbl = streak3_jan5 and user_id = "''u1''"
      and clk = "instant jan6_noon" and z = utc_zone, OF TrueI TrueI steady_utc _ row]
  show "streak_update utc_zone (instant jan6_noon) True True ''u1'' streak3_jan5 =
     (streak_reply 4,
      streak3_jan5(''u1'' \<mapsto> \<lparr>daily_streak = 4, last_review_date = Some 19728,
                                 updated_at = jan6_noon\<rparr>))"
    by (simp add: instant_def iso_date_examples)
next
  have gap: "streak5_jan1 ''u1'' = None
         \<or> (\<exists>cs d. streak5_jan1 ''u1'' = Some cs \<and> last_review_date cs = Some d
                  \<and> steady_zone utc_zone (at_yesterday (instant jan10_noon))
                  \<and> iso_date (at_yesterday (instant jan10_noon))
                      = iso_date (at_today (instant jan10_noon))
                  \<and> (d \<le> iso_date (at_today (instant jan10_noon)) - 2
                       \<or> iso_date (at_today (instant jan10_noon)) < d))"
    by (simp add: streak5_jan1_def steady_utc instant_def iso_date_examples)
  from streak_reset_steady [where tbl = streak5_jan1 and user_id = "''u1''", OF TrueI TrueI gap]
  show "streak_update utc_zone (instant jan10_noon) True True ''u1'' streak5_jan1 =
     (streak_reply 1,
      streak5_jan1(''u1'' \<mapsto> \<lparr>daily_streak = 1, last_review_date = Some 19732,
                                 updated_at = jan10_noon\<rparr>))"
    by (simp add: instant_def iso_date_examples)
qed

lemma new_york_yesterday:
  "iso_date (setDate_yesterday new_york mar10_evening) = 19792"
  "iso_date (setDate_yesterday new_york nov4_night) = 20029"
  by (simp_all add: setDate_yesterday_def new_york_def iso_date_def msPerDay_def Let_def
      mar10_evening_def nov4_night_def)

text \<open>
  Claim C5 fails on the handler. \<^verbatim>\<open>yesterdayStr\<close> comes from a second clock reading,
  moved back a day in the host's local time, and is not always the day before
  \<^verbatim>\<open>today\<close>. With streak 3 and last date 2024-01-05 in UTC, a request read at
  2024-01-06T23:59:59.990Z whose select returns after midnight is answered 1, not 4;
  so is, with last date 2024-03-09, a request at 2024-03-10T23:30Z on a host in New
  York. Both store streak 1.
\<close>

theorem streak_consecutive_day_failing:
  "streak3_jan5 ''u1''
     = Some \<lparr>daily_streak = 3, last_review_date = Some 19727, updated_at = 0\<rparr>
   \<and> iso_date (at_today midnight_clock) - 1 = 19727
   \<and> streak_update utc_zone midnight_clock True True ''u1'' streak3_jan5 =
       (streak_reply 1,
        streak3_jan5(''u1'' \<mapsto> \<lparr>daily_streak = 1, last_review_date = Some 19728,
                                   updated_at = 1704585600010\<rparr>))
   \<and> streak3_mar9 ''u1''
     = Some \<lparr>daily_streak = 3, last_review_date = Some 19791, updated_at = 0\<rparr>
   \<and> iso_date (at_today (instant mar10_evening)) - 1 = 19791
   \<and> streak_update new_york (instant mar10_evening) True True ''u1'' streak3_mar9 =
       (streak_reply 1,
        streak3_mar9(''u1'' \<mapsto> \<lparr>daily_streak = 1, last_review_date = Some 19792,
                                   updated_at = mar10_evening\<rparr>))"
  by (simp add: streak_update_def persist_streak_def Let_def midnight_clock_def instant_def
      streak3_jan5_def streak3_mar9_def iso_date_examples new_york_yesterday
      yesterday_steady [OF steady_utc])

text \<open>
  Claim C6 fails on the handler, by the same defect. With streak 3 and last date
  2024-11-02, two days before today, a request at 2024-11-04T00:30Z on a host in New
  York finds \<^verbatim>\<open>yesterdayStr\<close> to be 2024-11-02 and is answered 4, not 1; streak 4 is
  stored.
\<close>

theorem streak_reset_failing:
  "streak3_nov2 ''u1''
     = Some \<lparr>daily_streak = 3, last_review_date = Some 20029, updated_at = 0\<rparr>
   \<and> iso_date (at_today (instant nov4_night)) - 2 = 20029
   \<and> streak_update new_york (instant nov4_night) True True ''u1'' streak3_nov2 =
       (streak_reply 4,
        streak3_nov2(''u1'' \<mapsto> \<lparr>daily_streak = 4, last_review_date = Some 20031,
                                   updated_at = nov4_night\<rparr>))"
  by (simp add: streak_update_def persist_streak_def Let_def instant_def streak3_nov2_def
      iso_date_examples new_york_yesterday plus_one_exact)

section \<open>Settings resolution\<close>

lemma col_empty: "col Map.empty c = JNull"
  by (simp add: col_def)

lemma settings_of_empty_row:
  "settings_of_row Map.empty (defaultSettings username) = defaultSettings username"
  by (simp add: settings_of_row_def defaultSettings_def col_empty js_or_def unless_null_def)

text \<open>
  Claim C9. For a user with nothing persisted (no row, or a row with no column set)
  the answer holds every field with its default; the account's username appears in
  the profile name only (\<^verbatim>\<open>'User'\<close> when the username is missing or empty).
\<close>

theorem resolve_defaults:
  assumes "read_ok"
    and "single_by_user tbl user_id = None \<or> single_by_user tbl user_id = Some Map.empty"
  shows "settings_get read_ok user_id username tbl =
           reply 200 [(''success'', JBool True),
                      (''settings'', JObj
                         [(''profileName'', if truthy username then username else JStr ''User''),
                          (''maxLevel'', JNum 10),
                          (''jlptLevel'', JStr ''all''),
                          (''maxInterval'', JNum 180),
                          (''showProgress'', JBool True),
                          (''showDrawing'', JBool True),
                          (''showStudyProgress'', JBool True),
                          (''defaultQuestionMode'', JStr ''meaning-first''),
                          (''darkMode'', JBool False),
                          (''language'', JStr ''en'')])]"
  using assms
  by (auto simp: settings_get_def Let_def settings_of_empty_row)
     (simp_all add: defaultSettings_def js_or_def)

text \<open>The user \<^verbatim>\<open>aki\<close> with an empty settings table.\<close>

theorem resolve_defaults_witness:
  "settings_get True ''u1'' (JStr ''aki'') Map.empty
     = reply 200 [(''success'', JBool True),
                  (''settings'', JObj
                     [(''profileName'', JStr ''aki''),
                      (''maxLevel'', JNum 10),
                      (''jlptLevel'', JStr ''all''),
                      (''maxInterval'', JNum 180),
                      (''showProgress'', JBool True),
                      (''showDrawing'', JBool True),
                      (''showStudyProgress'', JBool True),
                      (''defaultQuestionMode'', JStr ''meaning-first''),
                      (''darkMode'', JBool False),
                      (''language'', JStr ''en'')])]"
proof -
  have none: "single_by_user Map.empty ''u1'' = None
                \<or> single_by_user Map.empty ''u1'' = Some Map.empty"
    by (simp add: single_by_user_def)
  from resolve_defaults [OF TrueI none, of "JStr ''aki''"]
  show ?thesis by simp
qed

lemma resolved_settings_get:
  assumes "read_ok" "single_by_user tbl user_id = Some data"
  shows "resolved (settings_get read_ok user_id username tbl) f
         = js_prop (settings_of_row data (defaultSettings username)) f"
  using assms by (simp add: resolved_def settings_get_def Let_def reply_def)

lemma falsy_col: "data c = Some v \<Longrightarrow> \<not> truthy v \<Longrightarrow> js_or (col data c) d = d"
  by (simp add: col_def js_or_def)

lemma truthy_neq_falsy: "truthy d \<Longrightarrow> \<not> truthy v \<Longrightarrow> d \<noteq> v"
  by auto

lemma or_resolved_cases:
  assumes "(c, f, d) \<in> set (or_resolved username)"
  shows "(c = ''profile_name'' \<and> f = ''profileName'' \<and> d = js_or username (JStr ''User''))
       \<or> (c = ''max_level'' \<and> f = ''maxLevel'' \<and> d = JNum 10)
       \<or> (c = ''jlpt_level'' \<and> f = ''jlptLevel'' \<and> d = JStr ''all'')
       \<or> (c = ''max_interval'' \<and> f = ''maxInterval'' \<and> d = JNum 180)
       \<or> (c = ''default_question_mode'' \<and> f = ''defaultQuestionMode''
            \<and> d = JStr ''meaning-first'')
       \<or> (c = ''language'' \<and> f = ''language'' \<and> d = JStr ''en'')"
  using assms unfolding or_resolved_def by simp

lemma or_resolved_truthy: "(c, f, d) \<in> set (or_resolved username) \<Longrightarrow> truthy d"
  by (drule or_resolved_cases) (elim disjE conjE; simp add: js_or_def)

lemma or_resolved_field:
  "(c, f, d) \<in> set (or_resolved username) \<Longrightarrow>
     js_prop (settings_of_row data (defaultSettings username)) f = js_or (col data c) d"
  by (drule or_resolved_cases)
     (elim disjE conjE; simp add: settings_of_row_def defaultSettings_def)

text \<open>
  Claim C10. For each setting resolved with \<^verbatim>\<open>||\<close>, a persisted value that is
  present but falsy (0, the empty string, \<^verbatim>\<open>false\<close>) is replaced by the default:
  the answer holds the default, which differs from the persisted value.
\<close>

theorem resolve_falsy_to_default:
  assumes "read_ok" and "single_by_user tbl user_id = Some data"
    and "(c, f, d) \<in> set (or_resolved username)"
    and "data c = Some v" and "\<not> truthy v"
  shows "resolved (settings_get read_ok user_id username tbl) f = d
       \<and> resolved (settings_get read_ok user_id username tbl) f \<noteq> v"
proof -
  have "resolved (settings_get read_ok user_id username tbl) f = js_or (col data c) d"
    using assms(1,2,3) by (simp add: resolved_settings_get or_resolved_field)
  also have "\<dots> = d" using assms(4,5) by (rule falsy_col)
  finally have r: "resolved (settings_get read_ok user_id username tbl) f = d" .
  have "truthy d" using assms(3) by (rule or_resolved_truthy)
  then have "d \<noteq> v" using assms(5) by (rule truthy_neq_falsy)
  with r show ?thesis by simp
qed

text \<open>
  A persisted \<open>max_level\<close> of 0 resolves to 10, and an empty persisted profile name to
  the username.
\<close>

theorem resolve_falsy_to_default_witness:
  "resolved (settings_get True ''u1'' (JStr ''aki'') [[JStr ''u1''] \<mapsto> zero_level_row])
      ''maxLevel'' = JNum 10
   \<and> zero_level_row ''max_level'' = Some (JNum 0)
   \<and> resolved (settings_get True ''u1'' (JStr ''aki'') [[JStr ''u1''] \<mapsto> zero_level_row])
      ''profileName'' = JStr ''aki''
   \<and> zero_level_row ''profile_name'' = Some (JStr [])"
proof -
  have data: "single_by_user [[JStr ''u1''] \<mapsto> zero_level_row] ''u1'' = Some zero_level_row"
    by (simp add: single_by_user_def)
  have level: "(''max_level'', ''maxLevel'', JNum 10) \<in> set (or_resolved (JStr ''aki''))"
    and name: "(''profile_name'', ''profileName'', JStr ''aki'') \<in> set (or_resolved (JStr ''aki''))"
    by (simp_all add: or_resolved_def js_or_def)
  have zero: "zero_level_row ''max_level'' = Some (JNum 0)"
    and empty: "zero_level_row ''profile_name'' = Some (JStr [])"
    by (simp_all add: zero_level_row_def)
  have "\<not> truthy (JNum 0)" and "\<not> truthy (JStr [])" by simp_all
  with resolve_falsy_to_default [OF TrueI data level zero]
    resolve_falsy_to_default [OF TrueI data name empty] zero empty
  show ?thesis by simp
qed

section \<open>Saving settings\<close>

lemma js_or_defined: "d \<noteq> JUndefined \<Longrightarrow> js_or a d \<noteq> JUndefined"
  by (auto simp: js_or_def)

lemma sent_columns_Cons:
  "sent_columns ((k, v) # payload) =
     (if v = JUndefined then sent_columns payload else (sent_columns payload)(k \<mapsto> wire v))"
  by (simp add: sent_columns_def)

lemma sent_columns_distinct:
  assumes "distinct (map fst payload)"
  shows "sent_columns payload c =
           (case map_of payload c of
              None \<Rightarrow> None
            | Some v \<Rightarrow> if v = JUndefined then None else Some (wire v))"
  using assms
proof (induction payload)
  case Nil
  then show ?case by (simp add: sent_columns_def)
next
  case (Cons kv payload)
  then have ih: "sent_columns payload c =
           (case map_of payload c of
              None \<Rightarrow> None
            | Some v \<Rightarrow> if v = JUndefined then None else Some (wire v))"
    and fresh: "fst kv \<notin> fst ` set payload" by simp_all
  from fresh have "map_of payload (fst kv) = None"
    by (simp add: map_of_eq_None_iff)
  with ih show ?case
    by (cases kv) (auto simp: sent_columns_Cons split: option.splits)
qed

lemma sent_columns_entry:
  assumes "distinct (map fst payload)" and "(c, v) \<in> set payload" and "v \<noteq> JUndefined"
  shows "sent_columns payload c = Some (wire v)"
  using assms by (simp add: sent_columns_distinct)

lemma wire_js_or_num: "wire (js_or (JNum c) (JNum 0)) = JNum c"
  by (simp add: js_or_def)

lemma settingsData_distinct: "distinct (map fst (settingsData now_iso user_id body))"
  by (simp add: settingsData_def)

lemma conflict_key_settings:
  "conflict_key [''user_id''] (settingsData now_iso user_id body) = [JStr user_id]"
proof -
  have "map_of (settingsData now_iso user_id body) ''user_id'' = Some (JStr user_id)"
    by (simp add: settingsData_def)
  then show ?thesis
    by (simp add: conflict_key_def col_def sent_columns_distinct[OF settingsData_distinct])
qed

lemma settings_save_accepted:
  assumes "settings_save now_iso write_ok user_id body tbl = (res, tbl')" and "status res = 200"
  shows "tbl' = tbl([JStr user_id] \<mapsto>
                  stored_row tbl [JStr user_id] ++ sent_columns (settingsData now_iso user_id body))"
  using assms
  by (auto simp: settings_save_def Let_def failure_def reply_def upsert_def conflict_key_settings
      split: if_splits)

lemma saved_fields_cases:
  assumes "(f, c) \<in> set saved_fields"
  shows "(f = ''profileName'' \<and> c = ''profile_name'')
       \<or> (f = ''maxLevel'' \<and> c = ''max_level'')
       \<or> (f = ''jlptLevel'' \<and> c = ''jlpt_level'')
       \<or> (f = ''maxInterval'' \<and> c = ''max_interval'')
       \<or> (f = ''showProgress'' \<and> c = ''show_progress'')
       \<or> (f = ''showDrawing'' \<and> c = ''show_drawing'')
       \<or> (f = ''showStudyProgress'' \<and> c = ''show_study_progress'')
       \<or> (f = ''defaultQuestionMode'' \<and> c = ''default_question_mode'')
       \<or> (f = ''darkMode'' \<and> c = ''dark_mode'')"
  using assms unfolding saved_fields_def by simp

lemma settingsData_saved_field:
  assumes "(f, c) \<in> set saved_fields"
  shows "map_of (settingsData now_iso user_id body) c = Some (js_prop body f)"
  using saved_fields_cases[OF assms]
  by (elim disjE conjE; simp add: settingsData_def)

lemma sent_settings_field:
  assumes "(f, c) \<in> set saved_fields"
  shows "sent_columns (settingsData now_iso user_id body) c =
           (if js_prop body f = JUndefined then None else Some (wire (js_prop body f)))"
  by (simp add: sent_columns_distinct[OF settingsData_distinct]
      settingsData_saved_field[OF assms])

lemma sent_settings_language:
  "sent_columns (settingsData now_iso user_id body) ''language''
     = Some (wire (js_or (js_prop body ''language'') (JStr ''en'')))"
proof -
  have "map_of (settingsData now_iso user_id body) ''language''
          = Some (js_or (js_prop body ''language'') (JStr ''en''))"
    by (simp add: settingsData_def)
  then show ?thesis
    by (simp add: sent_columns_distinct[OF settingsData_distinct] js_or_defined)
qed

text \<open>
  Claim C3, as stated, fails: a save that omits the language writes the language
  \<^verbatim>\<open>'en'\<close>. A user whose persisted language is \<^verbatim>\<open>'ja'\<close> saves a new profile name only;
  the save succeeds and the persisted language is \<^verbatim>\<open>'en'\<close> afterwards.
\<close>

theorem save_omitted_language_counterexample:
  "js_prop name_only_body ''language'' = JUndefined
   \<and> fst (settings_save jan6_iso True ''u1'' name_only_body japanese_settings)
       = reply 200 [(''success'', JBool True)]
   \<and> stored_row japanese_settings [JStr ''u1''] ''language'' = Some (JStr ''ja'')
   \<and> stored_row (snd (settings_save jan6_iso True ''u1'' name_only_body japanese_settings))
         [JStr ''u1''] ''language'' = Some (JStr ''en'')"
  by (simp add: name_only_body_def japanese_settings_def settings_save_def nullish_def Let_def
      upsert_def conflict_key_settings stored_row_def map_add_def sent_settings_language)
     (simp add: js_or_def)

lemma settings_save_accepted_language:
  assumes "settings_save now_iso write_ok user_id body tbl = (res, tbl')" and "status res = 200"
  shows "wire (js_or (js_prop body ''language'') (JStr ''en''))
           = js_or (js_prop body ''language'') (JStr ''en'')"
proof -
  have "\<not> truthy (js_prop body ''language'') \<or> js_prop body ''language'' = JStr ''en''
          \<or> js_prop body ''language'' = JStr ''ja''"
    using assms
    by (auto simp: settings_save_def Let_def failure_def reply_def split: if_splits)
  then show ?thesis by (auto simp: js_or_def)
qed

text \<open>
  Claim C3, amended. After a save that is accepted, each field other than the
  language that the body omits keeps its persisted value (or stays unset), and each
  such field that the body gives is stored as the client sends it (a finite value as
  given, a number that is not finite as \<^verbatim>\<open>null\<close>); the language column holds the
  body's language, or \<^verbatim>\<open>'en'\<close> when the body's language is omitted or falsy.
\<close>

theorem save_merges_except_language:
  assumes "settings_save now_iso write_ok user_id body tbl = (res, tbl')"
    and "status res = 200"
  shows "(\<forall>(f, c) \<in> set saved_fields.
            stored_row tbl' [JStr user_id] c =
              (if js_prop body f = JUndefined then stored_row tbl [JStr user_id] c
               else Some (wire (js_prop body f))))
       \<and> stored_row tbl' [JStr user_id] ''language''
            = Some (js_or (js_prop body ''language'') (JStr ''en''))"
proof -
  have t: "stored_row tbl' [JStr user_id] =
             stored_row tbl [JStr user_id] ++ sent_columns (settingsData now_iso user_id body)"
    using settings_save_accepted[OF assms] by (simp add: stored_row_def)
  show ?thesis
    by (auto simp: t map_add_def sent_settings_field sent_settings_language
        settings_save_accepted_language[OF assms])
qed

text \<open>
  The same save: the omitted \<open>max_level\<close> keeps its persisted 20, the given profile
  name is stored. A save whose \<^verbatim>\<open>maxLevel\<close> is the literal \<^verbatim>\<open>1e400\<close> stores \<^verbatim>\<open>null\<close> as the
  level and leaves the persisted language \<^verbatim>\<open>'ja'\<close> to be overwritten by \<^verbatim>\<open>'en'\<close>.
\<close>

theorem save_merges_except_language_witness:
  "stored_row (snd (settings_save jan6_iso True ''u1'' name_only_body japanese_settings))
         [JStr ''u1''] ''max_level'' = Some (JNum 20)
   \<and> stored_row (snd (settings_save jan6_iso True ''u1'' name_only_body japanese_settings))
         [JStr ''u1''] ''profile_name'' = Some (JStr ''Aki'')
   \<and> stored_row (snd (settings_save jan6_iso True ''u1'' overflow_level_body japanese_settings))
         [JStr ''u1''] ''max_level'' = Some JNull
   \<and> stored_row (snd (settings_save jan6_iso True ''u1'' overflow_level_body japanese_settings))
         [JStr ''u1''] ''language'' = Some (JStr ''en'')"
proof -
  have ok: "status (fst (settings_save jan6_iso True ''u1'' name_only_body japanese_settings))
              = 200"
    and ok2: "status (fst (settings_save jan6_iso True ''u1'' overflow_level_body
                             japanese_settings)) = 200"
    by (simp_all add: name_only_body_def overflow_level_body_def settings_save_def nullish_def
        Let_def reply_def)
  have m: "(''maxLevel'', ''max_level'') \<in> set saved_fields"
    and p: "(''profileName'', ''profile_name'') \<in> set saved_fields"
    by (simp_all add: saved_fields_def)
  from save_merges_except_language [OF surjective_pairing ok] m p
    save_merges_except_language [OF surjective_pairing ok2] m
  show ?thesis
    by (auto simp: name_only_body_def overflow_level_body_def japanese_settings_def
        stored_row_def js_or_def)
qed

text \<open>
  Claim C7, as stated, fails: a language that is present but falsy passes the
  validation. A save whose language is the empty string is answered with success
  and writes the language \<^verbatim>\<open>'en'\<close>.
\<close>

theorem save_empty_language_counterexample:
  "js_prop empty_language_body ''language'' = JStr []
   \<and> JStr [] \<noteq> JStr ''en'' \<and> JStr [] \<noteq> JStr ''ja''
   \<and> fst (settings_save jan6_iso True ''u1'' empty_language_body Map.empty)
       = reply 200 [(''success'', JBool True)]
   \<and> cell (snd (settings_save jan6_iso True ''u1'' empty_language_body Map.empty))
         [JStr ''u1''] ''language'' = Some (JStr ''en'')"
  by (simp add: empty_language_body_def settings_save_def nullish_def Let_def js_or_def cell_def
      col_def upsert_def conflict_key_def settingsData_def stored_row_def sent_columns_def)

text \<open>
  Claim C7, amended. A save whose language is truthy (any non-empty string, for
  example \<^verbatim>\<open>'fr'\<close>) and is neither \<^verbatim>\<open>'en'\<close> nor \<^verbatim>\<open>'ja'\<close> is answered with status 400 and
  the table is left as it was.
\<close>

theorem save_rejects_unknown_language:
  assumes "truthy (js_prop body ''language'')"
    and "js_prop body ''language'' \<noteq> JStr ''en''"
    and "js_prop body ''language'' \<noteq> JStr ''ja''"
  shows "settings_save now_iso write_ok user_id body tbl
           = (failure 400 ''Invalid language. Must be \"en\" or \"ja\"'', tbl)"
proof -
  have "\<not> nullish body" using assms(1) by (auto simp: nullish_def)
  then show ?thesis using assms by (simp add: settings_save_def Let_def)
qed

text \<open>The language \<^verbatim>\<open>'fr'\<close> against a table that holds settings.\<close>

theorem save_rejects_unknown_language_witness:
  "settings_save jan6_iso True ''u1'' french_body japanese_settings
     = (failure 400 ''Invalid language. Must be \"en\" or \"ja\"'', japanese_settings)"
proof -
  have lang: "js_prop french_body ''language'' = JStr ''fr''"
    by (simp add: french_body_def)
  have "truthy (js_prop french_body ''language'')"
    and "js_prop french_body ''language'' \<noteq> JStr ''en''"
    and "js_prop french_body ''language'' \<noteq> JStr ''ja''"
    by (simp_all add: lang)
  then show ?thesis by (rule save_rejects_unknown_language)
qed

section \<open>Progress upserts\<close>

lemma upsert_other_key: "k \<noteq> conflict_key oc p \<Longrightarrow> upsert oc tbl p k = tbl k"
  by (simp add: upsert_def Let_def)

lemma upsert_same_key:
  "upsert oc tbl p (conflict_key oc p)
     = Some (stored_row tbl (conflict_key oc p) ++ sent_columns p)"
  by (simp add: upsert_def Let_def)

lemma upsert_all_snoc: "upsert_all oc tbl (ps @ [p]) = upsert oc (upsert_all oc tbl ps) p"
  by (simp add: upsert_all_def)

text \<open>
  After the rows of one call have been applied in order, the row under the key of the
  \<open>i\<close>-th payload holds every column that payload sent, provided no later payload has
  the same key.
\<close>

lemma upsert_all_last_wins:
  assumes "i < length ps"
    and "\<forall>j. i < j \<and> j < length ps \<longrightarrow> conflict_key oc (ps ! j) \<noteq> conflict_key oc (ps ! i)"
  shows "\<exists>r. upsert_all oc tbl ps (conflict_key oc (ps ! i)) = Some r
           \<and> sent_columns (ps ! i) \<subseteq>\<^sub>m r"
  using assms
proof (induction ps rule: rev_induct)
  case Nil
  then show ?case by simp
next
  case (snoc p ps)
  show ?case
  proof (cases "i < length ps")
    case True
    then have at_i: "(ps @ [p]) ! i = ps ! i" by (simp add: nth_append)
    have "i < length ps \<and> length ps < length (ps @ [p])" using True by simp
    with snoc.prems(2)
    have "conflict_key oc ((ps @ [p]) ! length ps) \<noteq> conflict_key oc ((ps @ [p]) ! i)"
      by blast
    then have other: "conflict_key oc (ps ! i) \<noteq> conflict_key oc p"
      using at_i by simp
    have "\<forall>j. i < j \<and> j < length ps \<longrightarrow> conflict_key oc (ps ! j) \<noteq> conflict_key oc (ps ! i)"
    proof (intro allI impI)
      fix j assume j: "i < j \<and> j < length ps"
      then have "i < j \<and> j < length (ps @ [p])" by simp
      with snoc.prems(2)
      have "conflict_key oc ((ps @ [p]) ! j) \<noteq> conflict_key oc ((ps @ [p]) ! i)"
        by blast
      with j True show "conflict_key oc (ps ! j) \<noteq> conflict_key oc (ps ! i)"
        by (simp add: nth_append)
    qed
    from snoc.IH[OF True this] obtain r where
      "upsert_all oc tbl ps (conflict_key oc (ps ! i)) = Some r" "sent_columns (ps ! i) \<subseteq>\<^sub>m r"
      by blast
    with other show ?thesis
      by (simp add: upsert_all_snoc upsert_other_key at_i)
  next
    case False
    with snoc.prems(1) have "i = length ps" by simp
    then have at_i: "(ps @ [p]) ! i = p" by simp
    show ?thesis
      by (simp add: at_i upsert_all_snoc upsert_same_key map_le_map_add)
  qed
qed

lemma those_map_nth:
  assumes "those (map f xs) = Some ys"
  shows "length ys = length xs \<and> (\<forall>i < length xs. f (xs ! i) = Some (ys ! i))"
  using assms
proof (induction xs arbitrary: ys)
  case Nil
  then show ?case by simp
next
  case (Cons x xs)
  then obtain y ys' where y: "f x = Some y" and ys': "those (map f xs) = Some ys'"
    and ys: "ys = y # ys'"
    by (auto split: option.splits)
  from Cons.IH[OF ys'] have ih: "length ys' = length xs"
    "\<forall>i < length xs. f (xs ! i) = Some (ys' ! i)" by simp_all
  show ?case
  proof (intro conjI allI impI)
    show "length ys = length (x # xs)" using ih ys by simp
  next
    fix i assume "i < length (x # xs)"
    then show "f ((x # xs) ! i) = Some (ys ! i)"
      using y ys ih by (cases i) simp_all
  qed
qed

lemma progressRecord_distinct:
  "distinct (map fst (progressRecord parseInt now_iso user_id kanjiId pd))"
  by (simp add: progressRecord_def)

lemma progressData_distinct:
  "distinct (map fst (progressData now_iso user_id body))"
  by (simp add: progressData_def)

lemma conflict_key_progressRecord:
  "conflict_key [''user_id'', ''kanji_id''] (progressRecord parseInt now_iso user_id kanjiId pd)
     = [JStr user_id, wire (parseInt kanjiId)]"
proof -
  have "map_of (progressRecord parseInt now_iso user_id kanjiId pd) ''user_id''
          = Some (JStr user_id)"
    "map_of (progressRecord parseInt now_iso user_id kanjiId pd) ''kanji_id''
          = Some (parseInt kanjiId)"
    by (simp_all add: progressRecord_def)
  then show ?thesis
    by (simp add: conflict_key_def col_def sent_columns_distinct[OF progressRecord_distinct])
qed

lemma conflict_key_progressData:
  "conflict_key [''user_id'', ''kanji_id''] (progressData now_iso user_id body)
     = [JStr user_id, wire (js_prop body ''kanji_id'')]"
proof -
  have "map_of (progressData now_iso user_id body) ''user_id'' = Some (JStr user_id)"
    "map_of (progressData now_iso user_id body) ''kanji_id'' = Some (js_prop body ''kanji_id'')"
    by (simp_all add: progressData_def)
  then show ?thesis
    by (simp add: conflict_key_def col_def sent_columns_distinct[OF progressData_distinct])
qed

lemma map_entry_Some:
  assumes "map_entry parseInt now_iso user_id entry = Some r"
    and "destructure_pair entry = Some (kanjiId, pd)"
  shows "r = progressRecord parseInt now_iso user_id kanjiId pd"
  using assms by (simp add: map_entry_def split: if_splits)

lemma map_entry_key:
  assumes "map_entry parseInt now_iso user_id entry = Some r"
  shows "Some (conflict_key [''user_id'', ''kanji_id''] r)
           = map_option (\<lambda>k. [JStr user_id, k]) (entry_id parseInt entry)"
  using assms
  by (auto simp: map_entry_def entry_id_def conflict_key_progressRecord
      split: option.splits if_splits)

lemma bulk_update_accepted:
  assumes "bulk_update parseInt now_iso write_ok user_id body tbl = (res, tbl')"
    and "status res = 200"
    and "js_prop body ''kanjiProgressData'' = JArr xs"
  shows "\<exists>records. progressRecords parseInt now_iso user_id xs = Some records
           \<and> tbl' = upsert_all [''user_id'', ''kanji_id''] tbl records
           \<and> res = reply 200 [(''success'', JBool True), (''updated'', JNum (of_nat (length xs)))]"
  using assms
  by (auto simp: bulk_update_def Let_def failure_def reply_def
      split: if_splits option.splits)

lemma bulk_last_row:
  assumes "bulk_update parseInt now_iso write_ok user_id body tbl = (res, tbl')"
    and "status res = 200"
    and "js_prop body ''kanjiProgressData'' = JArr xs"
    and "i < length xs"
    and "destructure_pair (xs ! i) = Some (kanjiId, pd)"
    and "\<forall>j. i < j \<and> j < length xs \<longrightarrow> entry_id parseInt (xs ! j) \<noteq> Some (wire (parseInt kanjiId))"
  shows "\<exists>r. tbl' [JStr user_id, wire (parseInt kanjiId)] = Some r
           \<and> sent_columns (progressRecord parseInt now_iso user_id kanjiId pd) \<subseteq>\<^sub>m r"
proof -
  let ?oc = "[''user_id'', ''kanji_id'']"
  from bulk_update_accepted[OF assms(1,2,3)] obtain records where
    recs: "progressRecords parseInt now_iso user_id xs = Some records"
    and tbl': "tbl' = upsert_all ?oc tbl records" by blast
  from recs have len: "length records = length xs"
    and each: "\<forall>j < length xs. map_entry parseInt now_iso user_id (xs ! j) = Some (records ! j)"
    using those_map_nth[of "map_entry parseInt now_iso user_id" xs records]
    by (simp_all add: progressRecords_def)
  from each assms(4) have "map_entry parseInt now_iso user_id (xs ! i) = Some (records ! i)"
    by simp
  then have at_i: "records ! i = progressRecord parseInt now_iso user_id kanjiId pd"
    using assms(5) by (rule map_entry_Some)
  then have key_i: "conflict_key ?oc (records ! i) = [JStr user_id, wire (parseInt kanjiId)]"
    by (simp add: conflict_key_progressRecord)
  have later: "\<forall>j. i < j \<and> j < length records \<longrightarrow>
                 conflict_key ?oc (records ! j) \<noteq> conflict_key ?oc (records ! i)"
  proof (intro allI impI)
    fix j assume j: "i < j \<and> j < length records"
    then have "i < j \<and> j < length xs" using len by simp
    with assms(6) have ne: "entry_id parseInt (xs ! j) \<noteq> Some (wire (parseInt kanjiId))" by blast
    from j len each have "map_entry parseInt now_iso user_id (xs ! j) = Some (records ! j)"
      by simp
    from map_entry_key[OF this] ne
    show "conflict_key ?oc (records ! j) \<noteq> conflict_key ?oc (records ! i)"
      by (cases "entry_id parseInt (xs ! j)") (auto simp: key_i)
  qed
  have "i < length records" using assms(4) len by simp
  from upsert_all_last_wins[OF this later, of tbl] show ?thesis
    by (simp add: tbl' at_i conflict_key_progressRecord)
qed

lemma upsert_keeps_rows: "tbl k \<noteq> None \<Longrightarrow> upsert oc tbl p k \<noteq> None"
  by (simp add: upsert_def Let_def)

lemma upsert_all_rows:
  "p \<in> set ps \<Longrightarrow> upsert_all oc tbl ps (conflict_key oc p) \<noteq> None"
proof (induction ps rule: rev_induct)
  case Nil
  then show ?case by simp
next
  case (snoc q ps)
  show ?case
  proof (cases "p = q")
    case True
    then show ?thesis by (simp add: upsert_all_snoc upsert_same_key)
  next
    case False
    with snoc have "upsert_all oc tbl ps (conflict_key oc p) \<noteq> None" by simp
    then show ?thesis by (simp add: upsert_all_snoc upsert_keeps_rows)
  qed
qed

lemma sent_progressData_counters:
  "sent_columns (progressData now_iso user_id body) ''correct_reviews''
     = Some (wire (js_or (js_prop body ''correct_reviews'') (JNum 0)))"
  "sent_columns (progressData now_iso user_id body) ''total_reviews''
     = Some (wire (js_or (js_prop body ''total_reviews'') (JNum 0)))"
  by (rule sent_columns_entry[OF progressData_distinct], simp add: progressData_def,
      simp add: js_or_defined)+

lemma sent_progressRecord_counters:
  "sent_columns (progressRecord parseInt now_iso user_id kanjiId pd) ''correct_reviews''
     = Some (wire (js_or (js_prop pd ''correctReviews'') (JNum 0)))"
  "sent_columns (progressRecord parseInt now_iso user_id kanjiId pd) ''total_reviews''
     = Some (wire (js_or (js_prop pd ''totalReviews'') (JNum 0)))"
  by (rule sent_columns_entry[OF progressRecord_distinct], simp add: progressRecord_def,
      simp add: js_or_defined)+

text \<open>
  A row that holds what was sent for the two counters: it holds the values supplied,
  defaulted and sent, and for finite numbers \<open>c\<close> and \<open>t\<close> it satisfies the invariant
  exactly when \<open>c \<le> t\<close>.
\<close>

lemma row_counters:
  assumes "sent ''correct_reviews'' = Some (wire (js_or vc (JNum 0)))"
    and "sent ''total_reviews'' = Some (wire (js_or vt (JNum 0)))"
    and "sent \<subseteq>\<^sub>m r"
  shows "col r ''correct_reviews'' = wire (js_or vc (JNum 0))
       \<and> col r ''total_reviews'' = wire (js_or vt (JNum 0))
       \<and> (vc = JNum c \<and> vt = JNum t \<longrightarrow> reviews_invariant r = (c \<le> t))"
proof -
  from assms have "r ''correct_reviews'' = Some (wire (js_or vc (JNum 0)))"
    "r ''total_reviews'' = Some (wire (js_or vt (JNum 0)))"
    by (auto simp: map_le_def dom_def)
  then show ?thesis
    by (auto simp: col_def reviews_invariant_def js_or_def)
qed

lemma duplicate_batch_accepted:
  "status (fst (bulk_update parseInt_integer jan6_iso True ''u1'' duplicate_batch_body Map.empty))
     = 200"
  by (simp add: bulk_update_def duplicate_batch_body_def duplicate_batch_def nullish_def Let_def
      progressRecords_def map_entry_def destructure_pair_def nth_or_undefined_def
      last_entry_def reply_def)

lemma duplicate_batch_last:
  "js_prop duplicate_batch_body ''kanjiProgressData'' = JArr duplicate_batch"
  "(1::nat) < length duplicate_batch"
  "destructure_pair (duplicate_batch ! 1) = Some (JNum 5, last_entry)"
  by (simp_all add: duplicate_batch_body_def duplicate_batch_def destructure_pair_def
      nth_or_undefined_def)

lemma duplicate_batch_later:
  "\<forall>j. 1 < j \<and> j < length duplicate_batch \<longrightarrow>
     entry_id parseInt_integer (duplicate_batch ! j)
       \<noteq> Some (wire (parseInt_integer (JNum 5)))"
proof (intro allI impI)
  fix j :: nat
  assume "1 < j \<and> j < length duplicate_batch"
  then have "j = 2" by (simp add: duplicate_batch_def)
  then show "entry_id parseInt_integer (duplicate_batch ! j)
               \<noteq> Some (wire (parseInt_integer (JNum 5)))"
    by (simp add: duplicate_batch_def entry_id_def destructure_pair_def nth_or_undefined_def
        parseInt_integer_def)
qed

text \<open>
  Claim C1, as stated, fails: nothing rejects an input whose \<open>correct_reviews\<close>
  exceeds its \<open>total_reviews\<close>. The upsert of 5 correct out of 3 reviews is answered
  with success, and the stored row breaks the invariant.
\<close>

theorem overcount_accepted_counterexample:
  "js_prop overcount_body ''correct_reviews'' = JNum 5
   \<and> js_prop overcount_body ''total_reviews'' = JNum 3
   \<and> fst (progress_update jan6_iso True ''u1'' overcount_body Map.empty)
       = reply 200 [(''success'', JBool True)]
   \<and> cell (snd (progress_update jan6_iso True ''u1'' overcount_body Map.empty))
        [JStr ''u1'', JNum 7] ''correct_reviews'' = Some (JNum 5)
   \<and> cell (snd (progress_update jan6_iso True ''u1'' overcount_body Map.empty))
        [JStr ''u1'', JNum 7] ''total_reviews'' = Some (JNum 3)
   \<and> \<not> reviews_invariant
         (stored_row (snd (progress_update jan6_iso True ''u1'' overcount_body Map.empty))
            [JStr ''u1'', JNum 7])"
proof -
  have key: "wire (js_prop overcount_body ''kanji_id'') = JNum 7"
    and vals: "js_prop overcount_body ''correct_reviews'' = JNum 5"
      "js_prop overcount_body ''total_reviews'' = JNum 3"
    and nn: "\<not> nullish overcount_body"
    by (simp_all add: overcount_body_def nullish_def)
  show ?thesis
    by (simp add: progress_update_def nn upsert_def Let_def conflict_key_progressData key vals
        stored_row_def cell_def col_def reviews_invariant_def sent_progressData_counters
        wire_js_or_num)
qed

text \<open>
  Claim C1, amended. An upsert that the store accepts is stored with the counters it
  supplies, as the client sends them: the row written by the single upsert, and the
  row written for an entry of a bulk batch that is the last one for its identifier,
  holds for each counter the value supplied (0 when it is missing or falsy, \<^verbatim>\<open>null\<close>
  when it is a number that is not finite). Nothing compares the two counters: for
  finite numbers \<open>c\<close> and \<open>t\<close> the stored row satisfies
  \<^verbatim>\<open>correctReviews \<le> totalReviews\<close> exactly when \<open>c \<le> t\<close>.
\<close>

theorem counters_stored_as_sent:
  "(write_ok \<and> \<not> nullish body
      \<longrightarrow> fst (progress_update now_iso write_ok user_id body tbl)
            = reply 200 [(''success'', JBool True)]
        \<and> (\<exists>r. snd (progress_update now_iso write_ok user_id body tbl)
                  [JStr user_id, wire (js_prop body ''kanji_id'')] = Some r
              \<and> col r ''correct_reviews''
                  = wire (js_or (js_prop body ''correct_reviews'') (JNum 0))
              \<and> col r ''total_reviews''
                  = wire (js_or (js_prop body ''total_reviews'') (JNum 0))
              \<and> (js_prop body ''correct_reviews'' = JNum c
                    \<and> js_prop body ''total_reviews'' = JNum t
                  \<longrightarrow> reviews_invariant r = (c \<le> t))))
   \<and> (bulk_update parseInt now_iso2 write_ok2 user_id body2 tbl = (res, tbl') \<and> status res = 200
        \<and> js_prop body2 ''kanjiProgressData'' = JArr xs \<and> i < length xs
        \<and> destructure_pair (xs ! i) = Some (kanjiId, pd)
        \<and> (\<forall>j. i < j \<and> j < length xs
                \<longrightarrow> entry_id parseInt (xs ! j) \<noteq> Some (wire (parseInt kanjiId)))
      \<longrightarrow> (\<exists>r. tbl' [JStr user_id, wire (parseInt kanjiId)] = Some r
              \<and> col r ''correct_reviews''
                  = wire (js_or (js_prop pd ''correctReviews'') (JNum 0))
              \<and> col r ''total_reviews''
                  = wire (js_or (js_prop pd ''totalReviews'') (JNum 0))
              \<and> (js_prop pd ''correctReviews'' = JNum c \<and> js_prop pd ''totalReviews'' = JNum t
                  \<longrightarrow> reviews_invariant r = (c \<le> t))))"
proof (intro conjI impI)
  assume a: "write_ok \<and> \<not> nullish body"
  then show "fst (progress_update now_iso write_ok user_id body tbl)
                 = reply 200 [(''success'', JBool True)]"
    by (simp add: progress_update_def)
  let ?p = "progressData now_iso user_id body"
  let ?k = "[JStr user_id, wire (js_prop body ''kanji_id'')]"
  let ?r = "stored_row tbl ?k ++ sent_columns ?p"
  have w: "snd (progress_update now_iso write_ok user_id body tbl) ?k = Some ?r"
    using a upsert_same_key[of "[''user_id'', ''kanji_id'']" tbl ?p]
    by (simp add: progress_update_def conflict_key_progressData)
  have "sent_columns ?p \<subseteq>\<^sub>m ?r" by (rule map_le_map_add)
  from row_counters[OF sent_progressData_counters(1) sent_progressData_counters(2) this,
      where c = c and t = t] w
  show "\<exists>r. snd (progress_update now_iso write_ok user_id body tbl) ?k = Some r
              \<and> col r ''correct_reviews''
                  = wire (js_or (js_prop body ''correct_reviews'') (JNum 0))
              \<and> col r ''total_reviews''
                  = wire (js_or (js_prop body ''total_reviews'') (JNum 0))
              \<and> (js_prop body ''correct_reviews'' = JNum c
                    \<and> js_prop body ''total_reviews'' = JNum t
                  \<longrightarrow> reviews_invariant r = (c \<le> t))"
    by blast
next
  assume b: "bulk_update parseInt now_iso2 write_ok2 user_id body2 tbl = (res, tbl')
        \<and> status res = 200
        \<and> js_prop body2 ''kanjiProgressData'' = JArr xs \<and> i < length xs
        \<and> destructure_pair (xs ! i) = Some (kanjiId, pd)
        \<and> (\<forall>j. i < j \<and> j < length xs
                \<longrightarrow> entry_id parseInt (xs ! j) \<noteq> Some (wire (parseInt kanjiId)))"
  let ?p = "progressRecord parseInt now_iso2 user_id kanjiId pd"
  from b bulk_last_row[of parseInt now_iso2 write_ok2 user_id body2 tbl res tbl' xs i kanjiId pd]
  obtain r where r: "tbl' [JStr user_id, wire (parseInt kanjiId)] = Some r"
    and le: "sent_columns ?p \<subseteq>\<^sub>m r" by blast
  from row_counters[OF sent_progressRecord_counters(1) sent_progressRecord_counters(2) le,
      where c = c and t = t] r
  show "\<exists>r. tbl' [JStr user_id, wire (parseInt kanjiId)] = Some r
              \<and> col r ''correct_reviews''
                  = wire (js_or (js_prop pd ''correctReviews'') (JNum 0))
              \<and> col r ''total_reviews''
                  = wire (js_or (js_prop pd ''totalReviews'') (JNum 0))
              \<and> (js_prop pd ''correctReviews'' = JNum c \<and> js_prop pd ''totalReviews'' = JNum t
                  \<longrightarrow> reviews_invariant r = (c \<le> t))"
    by blast
qed

text \<open>
  Two correct out of three reviews by the single upsert, and four out of five as the
  last of two entries for kanji 5 of a batch: both rows satisfy the invariant. A total
  given as the literal \<^verbatim>\<open>1e400\<close> is stored as \<^verbatim>\<open>null\<close>.
\<close>

theorem counters_stored_as_sent_witness:
  "(\<exists>r. snd (progress_update jan6_iso True ''u1'' counted_body Map.empty)
            [JStr ''u1'', JNum 7] = Some r
        \<and> col r ''correct_reviews'' = JNum 2 \<and> col r ''total_reviews'' = JNum 3
        \<and> reviews_invariant r)
   \<and> (\<exists>r. snd (progress_update jan6_iso True ''u1'' overflow_total_body Map.empty)
            [JStr ''u1'', JNum 7] = Some r
        \<and> col r ''correct_reviews'' = JNum 2 \<and> col r ''total_reviews'' = JNull)
   \<and> (\<exists>r. snd (bulk_update parseInt_integer jan6_iso True ''u1'' duplicate_batch_body Map.empty)
            [JStr ''u1'', JNum 5] = Some r
        \<and> col r ''correct_reviews'' = JNum 4 \<and> col r ''total_reviews'' = JNum 5
        \<and> reviews_invariant r)"
proof -
  have single: "True \<and> \<not> nullish counted_body"
    and vals: "js_prop counted_body ''correct_reviews'' = JNum 2"
      "js_prop counted_body ''total_reviews'' = JNum 3"
      "js_prop counted_body ''kanji_id'' = JNum 7"
    by (simp_all add: counted_body_def nullish_def)
  have over: "True \<and> \<not> nullish overflow_total_body"
    and over_vals: "js_prop overflow_total_body ''correct_reviews'' = JNum 2"
      "js_prop overflow_total_body ''total_reviews'' = JInfinity"
      "js_prop overflow_total_body ''kanji_id'' = JNum 7"
    by (simp_all add: overflow_total_body_def nullish_def)
  have bulk: "bulk_update parseInt_integer jan6_iso True ''u1'' duplicate_batch_body Map.empty
        = (fst (bulk_update parseInt_integer jan6_iso True ''u1'' duplicate_batch_body Map.empty),
           snd (bulk_update parseInt_integer jan6_iso True ''u1'' duplicate_batch_body Map.empty))
      \<and> status (fst (bulk_update parseInt_integer jan6_iso True ''u1'' duplicate_batch_body
                        Map.empty)) = 200
      \<and> js_prop duplicate_batch_body ''kanjiProgressData'' = JArr duplicate_batch
      \<and> 1 < length duplicate_batch
      \<and> destructure_pair (duplicate_batch ! 1) = Some (JNum 5, last_entry)
      \<and> (\<forall>j. 1 < j \<and> j < length duplicate_batch \<longrightarrow>
            entry_id parseInt_integer (duplicate_batch ! j)
              \<noteq> Some (wire (parseInt_integer (JNum 5))))"
    using duplicate_batch_accepted duplicate_batch_last duplicate_batch_later
    by simp
  have last_vals: "js_prop last_entry ''correctReviews'' = JNum 4"
    "js_prop last_entry ''totalReviews'' = JNum 5"
    by (simp_all add: last_entry_def)
  from counters_stored_as_sent [where c = 2 and t = 3 and now_iso = jan6_iso
        and user_id = "''u1''" and tbl = Map.empty, THEN conjunct1, rule_format, OF single]
    counters_stored_as_sent [where c = 2 and t = 3 and now_iso = jan6_iso
        and user_id = "''u1''" and tbl = Map.empty, THEN conjunct1, rule_format, OF over]
    counters_stored_as_sent [where c = 4 and t = 5, THEN conjunct2, rule_format, OF bulk]
  show ?thesis
    by (simp add: vals over_vals last_vals parseInt_integer_def js_or_def)
qed

text \<open>
  Claim C2. After a bulk update that succeeds, the row stored under an entry's
  identifier holds every column of the record built from that entry (its fields
  defaulted as by \<open>progressRecord\<close>, each as the client sends it), provided no later
  entry of the batch has the same identifier: of several entries for one identifier
  the last one is what the table holds.
\<close>

theorem bulk_last_occurrence_wins:
  assumes "bulk_update parseInt now_iso write_ok user_id body tbl = (res, tbl')"
    and "status res = 200"
    and "js_prop body ''kanjiProgressData'' = JArr xs"
    and "i < length xs"
    and "destructure_pair (xs ! i) = Some (kanjiId, pd)"
    and "\<forall>j. i < j \<and> j < length xs
           \<longrightarrow> entry_id parseInt (xs ! j) \<noteq> Some (wire (parseInt kanjiId))"
  shows "\<forall>(c, v) \<in> set (progressRecord parseInt now_iso user_id kanjiId pd).
           v \<noteq> JUndefined
           \<longrightarrow> stored_row tbl' [JStr user_id, wire (parseInt kanjiId)] c = Some (wire v)"
proof -
  from bulk_last_row[OF assms] obtain r where
    r: "tbl' [JStr user_id, wire (parseInt kanjiId)] = Some r"
    and le: "sent_columns (progressRecord parseInt now_iso user_id kanjiId pd) \<subseteq>\<^sub>m r" by blast
  show ?thesis
  proof (intro ballI, clarify)
    fix c v assume cv: "(c, v) \<in> set (progressRecord parseInt now_iso user_id kanjiId pd)"
      and v: "v \<noteq> JUndefined"
    from sent_columns_entry[OF progressRecord_distinct cv v]
    have "sent_columns (progressRecord parseInt now_iso user_id kanjiId pd) c = Some (wire v)" .
    with le have "r c = Some (wire v)" by (auto simp: map_le_def dom_def)
    with r show "stored_row tbl' [JStr user_id, wire (parseInt kanjiId)] c = Some (wire v)"
      by (simp add: stored_row_def)
  qed
qed

text \<open>
  A batch with two entries for kanji 5, the first learned, the second not, and an
  entry for kanji 8 after them: the table holds \<open>learned = false\<close> and the second
  entry's five reviews for kanji 5.
\<close>

theorem bulk_last_occurrence_wins_witness:
  "stored_row (snd (bulk_update parseInt_integer jan6_iso True ''u1'' duplicate_batch_body
                      Map.empty)) [JStr ''u1'', JNum 5] ''learned'' = Some (JBool False)
   \<and> stored_row (snd (bulk_update parseInt_integer jan6_iso True ''u1'' duplicate_batch_body
                      Map.empty)) [JStr ''u1'', JNum 5] ''total_reviews'' = Some (JNum 5)"
proof -
  have learned: "(''learned'', JBool False)
                   \<in> set (progressRecord parseInt_integer jan6_iso ''u1'' (JNum 5) last_entry)"
    and total: "(''total_reviews'', JNum 5)
                   \<in> set (progressRecord parseInt_integer jan6_iso ''u1'' (JNum 5) last_entry)"
    by (simp_all add: progressRecord_def last_entry_def js_or_def)
  from bulk_last_occurrence_wins [OF surjective_pairing duplicate_batch_accepted
      duplicate_batch_last duplicate_batch_later] learned total
  show ?thesis
    by (auto simp: parseInt_integer_def)
qed

text \<open>
  Claim C8, as stated, fails for a request without a parsed body: the batch is
  absent, reading it from the body throws, and the answer is status 500, not 400. (The
  table is left as it was.)
\<close>

theorem bulk_absent_body_counterexample:
  "nullish JUndefined
   \<and> bulk_update parseInt_integer jan6_iso True ''u1'' JUndefined japanese_settings
       = (failure 500 ''Failed to update progress'', japanese_settings)
   \<and> status (fst (bulk_update parseInt_integer jan6_iso True ''u1'' JUndefined
                     japanese_settings)) \<noteq> 400"
  by (simp add: bulk_update_def nullish_def failure_def reply_def)

text \<open>
  Claim C8, amended. A body that is present and whose \<open>kanjiProgressData\<close> is absent or
  is not an array is answered with status 400, and a request without a body with
  status 500; both leave the table as it was. An answer with status 200 means that
  every entry of the batch was mapped to a record, that the records, as many as the
  batch has entries, were handed to the store in one upsert, after which each entry's
  identifier has a row, and that \<open>updated\<close> is the number of entries. A batch whose
  entries all map to records is so answered when the store accepts the write.
\<close>

theorem bulk_shape_and_count:
  "(\<not> nullish body \<and> \<not> isArray (js_prop body ''kanjiProgressData'')
      \<longrightarrow> bulk_update parseInt now_iso write_ok user_id body tbl
            = (failure 400 ''Invalid kanji progress data'', tbl))
   \<and> (nullish body
      \<longrightarrow> bulk_update parseInt now_iso write_ok user_id body tbl
            = (failure 500 ''Failed to update progress'', tbl))
   \<and> (status (fst (bulk_update parseInt now_iso write_ok user_id body tbl)) = 200
      \<longrightarrow> (\<exists>records.
             progressRecords parseInt now_iso user_id (elements (js_prop body ''kanjiProgressData''))
               = Some records
           \<and> length records = length (elements (js_prop body ''kanjiProgressData''))
           \<and> snd (bulk_update parseInt now_iso write_ok user_id body tbl)
               = upsert_all [''user_id'', ''kanji_id''] tbl records
           \<and> (\<forall>entry \<in> set (elements (js_prop body ''kanjiProgressData'')).
                 \<exists>k. entry_id parseInt entry = Some k
                    \<and> snd (bulk_update parseInt now_iso write_ok user_id body tbl)
                         [JStr user_id, k] \<noteq> None)
           \<and> fst (bulk_update parseInt now_iso write_ok user_id body tbl)
               = reply 200 [(''success'', JBool True),
                            (''updated'', JNum (of_nat (length
                               (elements (js_prop body ''kanjiProgressData'')))))]))
   \<and> (write_ok \<and> js_prop body ''kanjiProgressData'' = JArr xs
        \<and> progressRecords parseInt now_iso user_id xs \<noteq> None
      \<longrightarrow> fst (bulk_update parseInt now_iso write_ok user_id body tbl)
            = reply 200 [(''success'', JBool True), (''updated'', JNum (of_nat (length xs)))])"
proof (intro conjI impI)
  assume "\<not> nullish body \<and> \<not> isArray (js_prop body ''kanjiProgressData'')"
  then show "bulk_update parseInt now_iso write_ok user_id body tbl
            = (failure 400 ''Invalid kanji progress data'', tbl)"
    by (simp add: bulk_update_def Let_def)
next
  assume "nullish body"
  then show "bulk_update parseInt now_iso write_ok user_id body tbl
            = (failure 500 ''Failed to update progress'', tbl)"
    by (simp add: bulk_update_def)
next
  let ?R = "bulk_update parseInt now_iso write_ok user_id body tbl"
  let ?xs = "elements (js_prop body ''kanjiProgressData'')"
  let ?oc = "[''user_id'', ''kanji_id'']"
  assume ok: "status (fst ?R) = 200"
  then have arr: "js_prop body ''kanjiProgressData'' = JArr ?xs"
    by (cases "js_prop body ''kanjiProgressData''")
       (auto simp: bulk_update_def Let_def failure_def reply_def split: if_splits)
  from bulk_update_accepted[OF surjective_pairing ok arr] obtain records where
    recs: "progressRecords parseInt now_iso user_id ?xs = Some records"
    and tbl': "snd ?R = upsert_all ?oc tbl records"
    and res: "fst ?R = reply 200 [(''success'', JBool True),
                                  (''updated'', JNum (of_nat (length ?xs)))]" by blast
  from recs have len: "length records = length ?xs"
    and each: "\<forall>j < length ?xs. map_entry parseInt now_iso user_id (?xs ! j) = Some (records ! j)"
    using those_map_nth[of "map_entry parseInt now_iso user_id" ?xs records]
    by (simp_all add: progressRecords_def)
  have rows: "\<forall>entry \<in> set ?xs. \<exists>k. entry_id parseInt entry = Some k
                 \<and> snd ?R [JStr user_id, k] \<noteq> None"
  proof
    fix entry assume "entry \<in> set ?xs"
    then obtain j where j: "j < length ?xs" "?xs ! j = entry"
      by (auto simp: in_set_conv_nth)
    with each have m: "map_entry parseInt now_iso user_id entry = Some (records ! j)" by auto
    from j len have "records ! j \<in> set records" by simp
    then have "upsert_all ?oc tbl records (conflict_key ?oc (records ! j)) \<noteq> None"
      by (rule upsert_all_rows)
    with map_entry_key[OF m] tbl'
    show "\<exists>k. entry_id parseInt entry = Some k \<and> snd ?R [JStr user_id, k] \<noteq> None"
      by (cases "entry_id parseInt entry") auto
  qed
  from recs len tbl' rows res
  show "\<exists>records.
             progressRecords parseInt now_iso user_id ?xs = Some records
           \<and> length records = length ?xs
           \<and> snd ?R = upsert_all ?oc tbl records
           \<and> (\<forall>entry \<in> set ?xs.
                 \<exists>k. entry_id parseInt entry = Some k \<and> snd ?R [JStr user_id, k] \<noteq> None)
           \<and> fst ?R = reply 200 [(''success'', JBool True),
                            (''updated'', JNum (of_nat (length ?xs)))]"
    by blast
next
  assume a: "write_ok \<and> js_prop body ''kanjiProgressData'' = JArr xs
        \<and> progressRecords parseInt now_iso user_id xs \<noteq> None"
  then have "\<not> nullish body" by (auto simp: nullish_def)
  with a show "fst (bulk_update parseInt now_iso write_ok user_id body tbl)
            = reply 200 [(''success'', JBool True), (''updated'', JNum (of_nat (length xs)))]"
    by (auto simp: bulk_update_def Let_def)
qed

text \<open>
  A batch sent as an object instead of an array and a body without the batch are
  answered 400, the body \<^verbatim>\<open>null\<close> is answered 500; the batch of three entries above is
  answered with \<open>updated = 3\<close> and leaves a row for kanji 5 and a row for kanji 8.
\<close>

theorem bulk_shape_and_count_witness:
  "bulk_update parseInt_integer jan6_iso True ''u1'' object_batch_body japanese_settings
     = (failure 400 ''Invalid kanji progress data'', japanese_settings)
   \<and> bulk_update parseInt_integer jan6_iso True ''u1'' name_only_body japanese_settings
     = (failure 400 ''Invalid kanji progress data'', japanese_settings)
   \<and> bulk_update parseInt_integer jan6_iso True ''u1'' JNull japanese_settings
     = (failure 500 ''Failed to update progress'', japanese_settings)
   \<and> fst (bulk_update parseInt_integer jan6_iso True ''u1'' duplicate_batch_body Map.empty)
     = reply 200 [(''success'', JBool True), (''updated'', JNum 3)]
   \<and> snd (bulk_update parseInt_integer jan6_iso True ''u1'' duplicate_batch_body Map.empty)
       [JStr ''u1'', JNum 5] \<noteq> None
   \<and> snd (bulk_update parseInt_integer jan6_iso True ''u1'' duplicate_batch_body Map.empty)
       [JStr ''u1'', JNum 8] \<noteq> None"
proof -
  have shape: "\<not> nullish object_batch_body
                 \<and> \<not> isArray (js_prop object_batch_body ''kanjiProgressData'')"
    and absent: "\<not> nullish name_only_body
                 \<and> \<not> isArray (js_prop name_only_body ''kanjiProgressData'')"
    by (simp_all add: object_batch_body_def name_only_body_def nullish_def)
  have null: "nullish JNull" by (simp add: nullish_def)
  have batch: "elements (js_prop duplicate_batch_body ''kanjiProgressData'') = duplicate_batch"
    by (simp add: duplicate_batch_body_def)
  have ids: "entry_id parseInt_integer (JArr [JNum 5, last_entry]) = Some (JNum 5)"
    "entry_id parseInt_integer (JArr [JNum 8, JObj [(''learned'', JBool True)]]) = Some (JNum 8)"
    by (simp_all add: entry_id_def destructure_pair_def nth_or_undefined_def parseInt_integer_def)
  from bulk_shape_and_count [THEN conjunct2, THEN conjunct2, THEN conjunct1, rule_format,
      OF duplicate_batch_accepted]
  have "fst (bulk_update parseInt_integer jan6_iso True ''u1'' duplicate_batch_body Map.empty)
          = reply 200 [(''success'', JBool True), (''updated'', JNum 3)]
     \<and> snd (bulk_update parseInt_integer jan6_iso True ''u1'' duplicate_batch_body Map.empty)
         [JStr ''u1'', JNum 5] \<noteq> None
     \<and> snd (bulk_update parseInt_integer jan6_iso True ''u1'' duplicate_batch_body Map.empty)
         [JStr ''u1'', JNum 8] \<noteq> None"
    by (auto simp: batch duplicate_batch_def ids)
  with bulk_shape_and_count [THEN conjunct1, rule_format, OF shape]
    bulk_shape_and_count [THEN conjunct1, rule_format, OF absent]
    bulk_shape_and_count [THEN conjunct2, THEN conjunct1, rule_format, OF null]
  show ?thesis by simp
qed

end
